theory Spec2Isabelle
  imports Main "HOL-Library.Sublist"
begin

section \<open>Mention manager: data model\<close>

text \<open>
  The TypeScript types \<open>Range = {start, end}\<close> and \<open>MentionedUser = {user, range}\<close>.
  Offsets are JavaScript numbers holding text positions; they are modelled as integers.
  The field \<open>end\<close> is written \<open>end'\<close> and \<open>range\<close> is written \<open>range'\<close>, since the
  plain names are taken in Isabelle.
\<close>

record Range =
  start :: int
  end' :: int

record SendbirdUser =
  userId :: string
  nickname :: string

record MentionedUser =
  user :: SendbirdUser
  range' :: Range

record MentionConfig =
  trigger :: string
  delimiter :: string

text \<open>The constructor arguments of \<open>MentionManager\<close>.\<close>

record MentionManager =
  config :: MentionConfig
  mentionEnabled :: bool


section \<open>rangeHelpers\<close>

definition inRangeUnderOver :: "int \<Rightarrow> int \<Rightarrow> int \<Rightarrow> bool" where
  "inRangeUnderOver s num e = (s < num \<and> num < e)"

definition inRangeUnderMore :: "int \<Rightarrow> int \<Rightarrow> int \<Rightarrow> bool" where
  "inRangeUnderMore s num e = (s < num \<and> num \<le> e)"

definition inRangeLessOver :: "int \<Rightarrow> int \<Rightarrow> int \<Rightarrow> bool" where
  "inRangeLessOver s num e = (s \<le> num \<and> num < e)"

definition inRangeLessMore :: "int \<Rightarrow> int \<Rightarrow> int \<Rightarrow> bool" where
  "inRangeLessMore s num e = (s \<le> num \<and> num \<le> e)"

datatype Compare = UnderOver | UnderMore | LessOver | LessMore

text \<open>
  The third parameter of \<open>intersection\<close> is optional in the source and defaults to
  \<open>'underOver'\<close>; \<open>None\<close> is the omitted argument.
\<close>

definition intersection :: "Range \<Rightarrow> Range \<Rightarrow> Compare option \<Rightarrow> bool" where
  "intersection a b compare =
     (let range = (case (case compare of None \<Rightarrow> UnderOver | Some c \<Rightarrow> c) of
                     UnderOver \<Rightarrow> inRangeUnderOver
                   | UnderMore \<Rightarrow> inRangeUnderMore
                   | LessOver \<Rightarrow> inRangeLessOver
                   | LessMore \<Rightarrow> inRangeLessMore)
      in range (start a) (start b) (end' a) \<or> range (start a) (end' b) (end' a))"

section \<open>Range reconciliation and removal\<close>

definition reconcileRangeInMentionedUsers ::
  "int \<Rightarrow> int \<Rightarrow> MentionedUser list \<Rightarrow> MentionedUser list" where
  "reconcileRangeInMentionedUsers offset selectionIndex mentionedUsers =
     map (\<lambda>it.
       if selectionIndex \<le> start (range' it)
       then it\<lparr>range' := \<lparr>start = start (range' it) + offset, end' = end' (range' it) + offset\<rparr>\<rparr>
       else it) mentionedUsers"

text \<open>
  \<open>removeMentionedUsersInSelection\<close> filters the list with a callback that also updates
  two local variables; the loop threads them with the list kept so far.
\<close>

record Removal =
  filtered :: "MentionedUser list"
  lastSelection :: int
  removedOffset :: int

fun removeLoop :: "Range \<Rightarrow> MentionedUser list \<Rightarrow> Removal \<Rightarrow> Removal" where
  "removeLoop selection [] acc = acc"
| "removeLoop selection (it # rest) acc =
     (let shouldRemove = intersection selection (range' it) (Some LessMore)
      in removeLoop selection rest
           (if shouldRemove
            then acc\<lparr>lastSelection := max (lastSelection acc) (end' (range' it)),
                     removedOffset := removedOffset acc - (end' (range' it) - start (range' it))\<rparr>
            else acc\<lparr>filtered := filtered acc @ [it]\<rparr>))"

definition removeMentionedUsersInSelection :: "Range \<Rightarrow> MentionedUser list \<Rightarrow> Removal" where
  "removeMentionedUsersInSelection selection mentionedUsers =
     removeLoop selection mentionedUsers \<lparr>filtered = [], lastSelection = 0, removedOffset = 0\<rparr>"

section \<open>JavaScript string operations used by the mention manager\<close>

text \<open>
  Strings are lists of characters (the code units of the JavaScript string).
  \<open>s.slice(b, e)\<close>: a negative index counts from the end, and both indices are clamped
  to the string.
\<close>

definition js_index :: "'a list \<Rightarrow> int \<Rightarrow> nat" where
  "js_index s i =
     (let len = int (length s)
      in nat (if i < 0 then max (len + i) 0 else min i len))"

definition js_slice :: "'a list \<Rightarrow> int \<Rightarrow> int \<Rightarrow> 'a list" where
  "js_slice s b e = take (js_index s e - js_index s b) (drop (js_index s b) s)"

definition js_slice_from :: "'a list \<Rightarrow> int \<Rightarrow> 'a list" where
  "js_slice_from s b = drop (js_index s b) s"






text \<open>
  \<open>xs.sort(cmp)\<close> is a stable sort; \<open>cmp a b \<le> 0\<close> keeps \<open>a\<close> before \<open>b\<close>.
\<close>

fun insert_by :: "('a \<Rightarrow> 'a \<Rightarrow> int) \<Rightarrow> 'a \<Rightarrow> 'a list \<Rightarrow> 'a list" where
  "insert_by cmp x [] = [x]"
| "insert_by cmp x (y # ys) = (if cmp x y \<le> 0 then x # y # ys else y # insert_by cmp x ys)"

definition js_sort :: "('a \<Rightarrow> 'a \<Rightarrow> int) \<Rightarrow> 'a list \<Rightarrow> 'a list" where
  "js_sort cmp xs = foldr (insert_by cmp) xs []"

section \<open>Search string and message templates\<close>





definition getSearchStringRangeInText :: "MentionManager \<Rightarrow> int \<Rightarrow> string \<Rightarrow> Range" where
  "getSearchStringRangeInText mgr selectionIndex search =
     \<lparr>start = selectionIndex - int (length search) - int (length (trigger (config mgr))),
      end' = selectionIndex\<rparr>"

definition asMentionedMessageTemplate :: "MentionManager \<Rightarrow> SendbirdUser \<Rightarrow> bool \<Rightarrow> string" where
  "asMentionedMessageTemplate mgr u delim =
     trigger (config mgr) @ ''{'' @ userId u @ ''}'' @ (if delim then delimiter (config mgr) else [])"

definition asMentionedMessageText :: "MentionManager \<Rightarrow> SendbirdUser \<Rightarrow> bool \<Rightarrow> string" where
  "asMentionedMessageText mgr u delim =
     trigger (config mgr) @ nickname u @ (if delim then delimiter (config mgr) else [])"

record TemplateAcc =
  leftText :: string
  strings :: "string list"

definition templateStep :: "MentionManager \<Rightarrow> TemplateAcc \<Rightarrow> MentionedUser \<Rightarrow> TemplateAcc" where
  "templateStep mgr acc cur =
     (let leftSpan = js_slice (leftText acc) 0 (start (range' cur));
          templateSpan = asMentionedMessageTemplate mgr (user cur) False;
          rightSpan = js_slice_from (leftText acc) (end' (range' cur))
      in \<lparr>leftText = leftSpan, strings = [templateSpan, rightSpan] @ strings acc\<rparr>)"

definition textToMentionedMessageTemplate ::
  "MentionManager \<Rightarrow> string \<Rightarrow> MentionedUser list \<Rightarrow> string" where
  "textToMentionedMessageTemplate mgr text mentionedUsers =
     (if \<not> mentionEnabled mgr then text
      else
        let sorted = js_sort (\<lambda>a b. start (range' b) - start (range' a)) mentionedUsers;
            acc = foldl (templateStep mgr) \<lparr>leftText = text, strings = []\<rparr> sorted
        in concat (leftText acc # strings acc))"

record TextAndMentionedUsers =
  mentionedText :: string
  mentionedUsers :: "MentionedUser list"

definition templateToTextAndMentionedUsers ::
  "MentionManager \<Rightarrow> string \<Rightarrow> SendbirdUser list \<Rightarrow> TextAndMentionedUsers" where
  "templateToTextAndMentionedUsers mgr template users =
     \<lparr>mentionedText = [], mentionedUsers = []\<rparr>"

section \<open>Group channel messages hook: data model\<close>

text \<open>
  Modelled from the spec: the message type of the chat SDK is external and not among the
  sources. A message carries the server-assigned \<open>messageId\<close>, the client-assigned
  \<open>reqId\<close> (absent on message types without one), its send state, its sender and its
  creation time.
\<close>

datatype SendingStatus = Pending | Succeeded | Failed

record Message =
  messageId :: int
  reqId :: "string option"
  sendingStatus :: SendingStatus
  senderId :: string
  createdAt :: int

text \<open>
  Modelled from the spec: the identity of a message, which the missing reducer compares, is
  its confirmed id, or its pending id while it is unconfirmed.
\<close>

datatype Identity = ConfirmedId int | PendingId "string option"

definition identity :: "Message \<Rightarrow> Identity" where
  "identity m =
     (if sendingStatus m = Succeeded then ConfirmedId (messageId m) else PendingId (reqId m))"

text \<open>
  The state of \<open>useGroupChannelMessagesReducer\<close> that the hook reads: \<open>messages\<close> is the
  spec's \<open>current\<close> and \<open>nextMessages\<close> its \<open>pendingNext\<close>.
\<close>

record Store =
  messages :: "Message list"
  nextMessages :: "Message list"

type_synonym Comparator = "Message \<Rightarrow> Message \<Rightarrow> int"

text \<open>
  Modelled from the spec: the default \<open>sortComparator\<close> of the missing reducer orders by
  creation time, ascending.
\<close>

definition defaultComparator :: Comparator where
  "defaultComparator a b = createdAt a - createdAt b"

text \<open>
  Modelled from the spec: the entry that a message updates in the missing reducer. It is the
  entry with the same identity, or the pending entry of the same request: when a message goes
  from pending to succeeded, the confirmed message takes the place of its pending entry.
\<close>

definition sameEntry :: "Message \<Rightarrow> Message \<Rightarrow> bool" where
  "sameEntry e m =
     (identity e = identity m \<or>
      (sendingStatus e \<noteq> Succeeded \<and> reqId e \<noteq> None \<and> reqId e = reqId m))"

text \<open>
  Modelled from the spec: the upsert of the missing reducer module \<open>./reducer\<close>. An update
  keeps the position of the entry it replaces; a new message goes to the end.
\<close>

fun upsert :: "Message \<Rightarrow> Message list \<Rightarrow> Message list" where
  "upsert m [] = [m]"
| "upsert m (e # es) = (if sameEntry e m then m # es else e # upsert m es)"

text \<open>
  Modelled from the spec: \<open>setCurrent(messages, replace)\<close> and \<open>setNext(messages, replace)\<close>
  of the missing reducer, on one partition. With \<open>replace\<close> the partition is fully replaced;
  otherwise each message is upserted by identity and the partition is sorted by the
  comparator (a stable sort).
\<close>

definition setMessages :: "Comparator \<Rightarrow> Message list \<Rightarrow> bool \<Rightarrow> Message list \<Rightarrow> Message list" where
  "setMessages cmp ms replace old =
     (if replace then ms else js_sort cmp (foldl (\<lambda>acc m. upsert m acc) old ms))"

text \<open>
  Modelled from the spec: \<open>updateMessages\<close> of the missing reducer is \<open>setCurrent\<close>.
\<close>

definition updateMessages :: "Comparator \<Rightarrow> Message list \<Rightarrow> bool \<Rightarrow> Store \<Rightarrow> Store" where
  "updateMessages cmp ms clearPrev s = s\<lparr>messages := setMessages cmp ms clearPrev (messages s)\<rparr>"

text \<open>
  Modelled from the spec: \<open>updateNextMessages\<close> of the missing reducer is \<open>setNext\<close>;
  replacing with the empty list empties \<open>pendingNext\<close>.
\<close>

definition updateNextMessages :: "Comparator \<Rightarrow> Message list \<Rightarrow> bool \<Rightarrow> Store \<Rightarrow> Store" where
  "updateNextMessages cmp ms clearPrev s =
     s\<lparr>nextMessages := setMessages cmp ms clearPrev (nextMessages s)\<rparr>"

text \<open>
  Modelled from the spec: \<open>removeByIdentity(confirmedIds, pendingIds)\<close> of the missing
  reducer matches an entry by its confirmed id or by its pending id.
\<close>

definition matchesIds :: "int list \<Rightarrow> string list \<Rightarrow> Message \<Rightarrow> bool" where
  "matchesIds msgIds reqIds m =
     (case identity m of
        ConfirmedId i \<Rightarrow> i \<in> set msgIds
      | PendingId r \<Rightarrow> (case r of None \<Rightarrow> False | Some q \<Rightarrow> q \<in> set reqIds))"

text \<open>
  Modelled from the spec: \<open>deleteMessages\<close> of the missing reducer is \<open>removeByIdentity\<close>
  on \<open>current\<close>.
\<close>

definition deleteMessages :: "int list \<Rightarrow> string list \<Rightarrow> Store \<Rightarrow> Store" where
  "deleteMessages msgIds reqIds s =
     s\<lparr>messages := filter (\<lambda>m. \<not> matchesIds msgIds reqIds m) (messages s)\<rparr>"

text \<open>
  Modelled from the spec: \<open>deleteNextMessages\<close> of the missing reducer is
  \<open>removeByIdentity\<close> on \<open>pendingNext\<close>.
\<close>

definition deleteNextMessages :: "int list \<Rightarrow> string list \<Rightarrow> Store \<Rightarrow> Store" where
  "deleteNextMessages msgIds reqIds s =
     s\<lparr>nextMessages := filter (\<lambda>m. \<not> matchesIds msgIds reqIds m) (nextMessages s)\<rparr>"

text \<open>
  Modelled from the spec: \<open>newMessagesFromNext\<close> of the missing reducer is \<open>pendingNext\<close>
  without the viewer's own messages.
\<close>

definition newMessagesFromNext :: "string option \<Rightarrow> Store \<Rightarrow> Message list" where
  "newMessagesFromNext viewer s = filter (\<lambda>m. Some (senderId m) \<noteq> viewer) (nextMessages s)"

text \<open>
  The message collection of the SDK, as far as the hook reads it. \<open>collectionId\<close> tells
  one collection object from another; \<open>disposed\<close> records that \<open>dispose()\<close> was called on it.
\<close>

record MessageCollection =
  collectionId :: nat
  hasPrevious :: bool
  hasNext :: bool
  pendingMessages :: "Message list"
  failedMessages :: "Message list"
  disposed :: bool

text \<open>The calls the hook makes on the SDK and the logger, in order.\<close>

datatype SdkCall =
    Dispose nat
  | CreateMessageCollection nat
  | MarkAsDelivered
  | MarkAsRead
  | LogError string
  | Initialize nat
  | SetMessageCollectionHandler nat

text \<open>What the SDK answers: whether each receipt call throws, and whether the cache is on.\<close>

record Sdk =
  markAsDeliveredThrows :: bool
  markAsReadThrows :: bool
  isCacheEnabled :: bool

datatype SdkError = SdkError string

record HookState =
  collectionRef :: "MessageCollection option"
  store :: Store
  sdkCalls :: "SdkCall list"

section \<open>Group channel messages hook: operations\<close>

text \<open>\<open>if (uid)\<close>: an absent id and the empty string are both falsy.\<close>

definition truthy :: "string option \<Rightarrow> bool" where
  "truthy uid = (case uid of None \<Rightarrow> False | Some u \<Rightarrow> u \<noteq> [])"

text \<open>
  \<open>createMessageCollection\<close>: the collection of the caller's \<open>collectionCreator\<close> when
  there is one, else the one the channel builds (\<open>built\<close>: limit 100, starting now).
\<close>

definition createMessageCollection ::
  "MessageCollection \<Rightarrow> MessageCollection option \<Rightarrow> MessageCollection" where
  "createMessageCollection built creator = (case creator of Some c \<Rightarrow> c | None \<Rightarrow> built)"

text \<open>
  \<open>channelMarkAs\<close> is called without being awaited. Up to its \<open>await\<close> it sends the
  delivery receipt, logs it if it throws, and sends the read receipt. What follows the
  \<open>await\<close> runs when the promise of the read receipt settles, after the caller has gone
  on: \<open>channelMarkAsSettled\<close> logs the rejection.
\<close>

definition channelMarkAs :: "Sdk \<Rightarrow> HookState \<Rightarrow> HookState" where
  "channelMarkAs sdk st =
     st\<lparr>sdkCalls := sdkCalls st
          @ [MarkAsDelivered]
          @ (if markAsDeliveredThrows sdk then [LogError ''channelMarkAs/Delivered''] else [])
          @ [MarkAsRead]\<rparr>"

definition channelMarkAsSettled :: "Sdk \<Rightarrow> HookState \<Rightarrow> HookState" where
  "channelMarkAsSettled sdk st =
     (if markAsReadThrows sdk
      then st\<lparr>sdkCalls := sdkCalls st @ [LogError ''channelMarkAs/Read'']\<rparr>
      else st)"

definition disposeCurrent :: "HookState \<Rightarrow> HookState" where
  "disposeCurrent st =
     (case collectionRef st of
        None \<Rightarrow> st
      | Some c \<Rightarrow> st\<lparr>collectionRef := Some (c\<lparr>disposed := True\<rparr>),
                      sdkCalls := sdkCalls st @ [Dispose (collectionId c)]\<rparr>)"

text \<open>
  \<open>init\<close> up to its return: the callbacks it hands to \<open>initialize\<close> and to
  \<open>setMessageCollectionHandler\<close> run later, when the SDK calls them, and are the
  transitions below; so does \<open>channelMarkAsSettled\<close>.
\<close>

definition init ::
  "Sdk \<Rightarrow> Comparator \<Rightarrow> MessageCollection \<Rightarrow> MessageCollection option \<Rightarrow> string option
     \<Rightarrow> HookState \<Rightarrow> HookState" where
  "init sdk cmp built creator uid st =
     (let st1 = disposeCurrent st
      in if truthy uid
         then
           let c = createMessageCollection built creator;
               st2 = st1\<lparr>collectionRef := Some c,
                         sdkCalls := sdkCalls st1 @ [CreateMessageCollection (collectionId c)]\<rparr>;
               st3 = st2\<lparr>store := updateNextMessages cmp [] True (store st2)\<rparr>;
               st4 = channelMarkAs sdk st3
           in st4\<lparr>sdkCalls := sdkCalls st4
                    @ [Initialize (collectionId c), SetMessageCollectionHandler (collectionId c)]\<rparr>
         else st1)"

definition snapshotResult :: "Comparator \<Rightarrow> Message list \<Rightarrow> HookState \<Rightarrow> HookState" where
  "snapshotResult cmp ms st =
     (let pend = (case collectionRef st of None \<Rightarrow> [] | Some c \<Rightarrow> pendingMessages c);
          fail = (case collectionRef st of None \<Rightarrow> [] | Some c \<Rightarrow> failedMessages c)
      in st\<lparr>store := updateMessages cmp fail False
                        (updateMessages cmp pend False
                          (updateMessages cmp ms True (store st)))\<rparr>)"

definition onCacheResult ::
  "Sdk \<Rightarrow> Comparator \<Rightarrow> SdkError option \<Rightarrow> Message list \<Rightarrow> HookState \<Rightarrow> HookState" where
  "onCacheResult sdk cmp err ms st =
     (case err of
        Some e \<Rightarrow>
          (if isCacheEnabled sdk then st\<lparr>sdkCalls := sdkCalls st @ [LogError ''onCacheResult'']\<rparr>
           else st)
      | None \<Rightarrow> snapshotResult cmp ms st)"

definition onApiResult ::
  "Comparator \<Rightarrow> SdkError option \<Rightarrow> Message list \<Rightarrow> HookState \<Rightarrow> HookState" where
  "onApiResult cmp err ms st =
     (case err of
        Some e \<Rightarrow> st\<lparr>sdkCalls := sdkCalls st @ [LogError ''onApiResult'']\<rparr>
      | None \<Rightarrow> snapshotResult cmp ms st)"

definition onMessagesAdded :: "Sdk \<Rightarrow> Comparator \<Rightarrow> Message list \<Rightarrow> HookState \<Rightarrow> HookState" where
  "onMessagesAdded sdk cmp ms st =
     (let st1 = channelMarkAs sdk st
      in st1\<lparr>store := updateNextMessages cmp ms False (store st1)\<rparr>)"

definition onMessagesUpdated :: "Comparator \<Rightarrow> Message list \<Rightarrow> HookState \<Rightarrow> HookState" where
  "onMessagesUpdated cmp ms st = st\<lparr>store := updateNextMessages cmp ms False (store st)\<rparr>"

definition onMessagesDeleted :: "Message list \<Rightarrow> HookState \<Rightarrow> HookState" where
  "onMessagesDeleted ms st =
     (let msgIds = map messageId ms;
          reqIds = concat (map (\<lambda>m. case reqId m of None \<Rightarrow> [] | Some r \<Rightarrow> [r]) ms)
      in st\<lparr>store := deleteNextMessages msgIds reqIds (deleteMessages msgIds reqIds (store st))\<rparr>)"

text \<open>
  \<open>prev\<close>. \<open>fetched\<close> is what awaiting \<open>loadPrevious()\<close> gives: the page, or the error
  the promise rejects with. The result is what the caller of \<open>prev\<close> gets: \<open>Inl\<close> would be
  an error reaching it. The inner case is the body of the \<open>try\<close>, the outer one the empty
  \<open>catch\<close>.
\<close>

definition prev :: "Comparator \<Rightarrow> SdkError + Message list \<Rightarrow> HookState \<Rightarrow> SdkError + HookState" where
  "prev cmp fetched st =
     (if (case collectionRef st of None \<Rightarrow> False | Some c \<Rightarrow> hasPrevious c)
      then
        (case (case fetched of
                 Inl e \<Rightarrow> Inl e
               | Inr list \<Rightarrow> Inr (st\<lparr>store := updateMessages cmp list False (store st)\<rparr>)) of
           Inl e \<Rightarrow> Inr st
         | Inr st' \<Rightarrow> Inr st')
      else Inr st)"

text \<open>
  \<open>next\<close> (written \<open>next'\<close>). The callback is memoised on the length of
  \<open>nextMessages\<close>: \<open>captured\<close> is the \<open>nextMessages\<close> array it holds, that of the render
  that created it, which is the array of the store only as long as no update of the same
  length has come since. \<open>fetched\<close> is what awaiting \<open>loadNext()\<close> gives, and \<open>during\<close> is
  what the other handlers do to the state while the call waits for it; the call waits only
  when there is a collection that reports a next page. The two calls of the reducer act on
  the store as it is when they are made.
\<close>

definition fetchedNext :: "SdkError + Message list \<Rightarrow> HookState \<Rightarrow> Message list" where
  "fetchedNext fetched st =
     (if (case collectionRef st of None \<Rightarrow> False | Some c \<Rightarrow> hasNext c)
      then (case fetched of Inl e \<Rightarrow> [] | Inr fetchedList \<Rightarrow> fetchedList)
      else [])"

definition next' ::
  "Comparator \<Rightarrow> Message list \<Rightarrow> SdkError + Message list \<Rightarrow> (HookState \<Rightarrow> HookState)
     \<Rightarrow> HookState \<Rightarrow> SdkError + HookState" where
  "next' cmp captured fetched during st =
     (let list1 = fetchedNext fetched st;
          st1 = (if (case collectionRef st of None \<Rightarrow> False | Some c \<Rightarrow> hasNext c)
                 then during st else st);
          list2 = (if length captured > 0 then list1 @ captured else list1)
      in if length list2 > 0
         then Inr (st1\<lparr>store := updateNextMessages cmp [] True
                                   (updateMessages cmp list2 False (store st1))\<rparr>)
         else Inr st1)"

section \<open>Sample inputs\<close>

definition mgr0 :: MentionManager where
  "mgr0 = \<lparr>config = \<lparr>trigger = ''@'', delimiter = '' ''\<rparr>, mentionEnabled = True\<rparr>"

definition alice :: SendbirdUser where
  "alice = \<lparr>userId = ''u1'', nickname = ''Al''\<rparr>"

definition bob :: SendbirdUser where
  "bob = \<lparr>userId = ''u2'', nickname = ''Bo''\<rparr>"

definition mention :: "SendbirdUser \<Rightarrow> int \<Rightarrow> int \<Rightarrow> MentionedUser" where
  "mention u s e = \<lparr>user = u, range' = \<lparr>start = s, end' = e\<rparr>\<rparr>"

definition msg :: "int \<Rightarrow> string \<Rightarrow> int \<Rightarrow> Message" where
  "msg i sender t =
     \<lparr>messageId = i, reqId = None, sendingStatus = Succeeded, senderId = sender, createdAt = t\<rparr>"

definition coll :: "nat \<Rightarrow> bool \<Rightarrow> bool \<Rightarrow> MessageCollection" where
  "coll i p n =
     \<lparr>collectionId = i, hasPrevious = p, hasNext = n, pendingMessages = [],
      failedMessages = [], disposed = False\<rparr>"

definition sdk0 :: Sdk where
  "sdk0 = \<lparr>markAsDeliveredThrows = False, markAsReadThrows = False, isCacheEnabled = True\<rparr>"

definition live :: "MessageCollection \<Rightarrow> Message list \<Rightarrow> Message list \<Rightarrow> HookState" where
  "live c cur nxt =
     \<lparr>collectionRef = Some c, store = \<lparr>messages = cur, nextMessages = nxt\<rparr>,
      sdkCalls = [CreateMessageCollection (collectionId c)]\<rparr>"

section \<open>Properties of the range helpers\<close>

text \<open>
  C8: for each of the four inclusivity modes, \<open>intersection a b\<close> holds exactly when
  \<open>a\<close> contains the start of \<open>b\<close> or the end of \<open>b\<close> under the boundary test of that mode
  (strict on both sides, strict below only, strict above only, closed), and the omitted mode
  is the strict one. The predicate is a function of its three arguments alone.
\<close>

theorem intersection_endpoint_test:
  "(intersection a b (Some UnderOver) =
      ((start a < start b \<and> start b < end' a) \<or> (start a < end' b \<and> end' b < end' a))) \<and>
   (intersection a b (Some UnderMore) =
      ((start a < start b \<and> start b \<le> end' a) \<or> (start a < end' b \<and> end' b \<le> end' a))) \<and>
   (intersection a b (Some LessOver) =
      ((start a \<le> start b \<and> start b < end' a) \<or> (start a \<le> end' b \<and> end' b < end' a))) \<and>
   (intersection a b (Some LessMore) =
      ((start a \<le> start b \<and> start b \<le> end' a) \<or> (start a \<le> end' b \<and> end' b \<le> end' a))) \<and>
   intersection a b None = intersection a b (Some UnderOver)"
  by (simp add: intersection_def inRangeUnderOver_def inRangeUnderMore_def
        inRangeLessOver_def inRangeLessMore_def)

section \<open>Range reconciliation\<close>

text \<open>
  C6: for every offset \<open>k\<close>, edit position \<open>p\<close> and mention list,
  \<open>reconcileRangeInMentionedUsers\<close> returns a list of the same length in which every
  mention whose range starts at or after \<open>p\<close> has its start and its end moved by exactly
  \<open>k\<close>, and every mention whose range starts before \<open>p\<close> is returned as it was.
\<close>

theorem reconcile_shifts_from_edit:
  "length (reconcileRangeInMentionedUsers k p ms) = length ms \<and>
   (\<forall>i < length ms.
      (p \<le> start (range' (ms ! i)) \<longrightarrow>
         start (range' (reconcileRangeInMentionedUsers k p ms ! i)) = start (range' (ms ! i)) + k \<and>
         end' (range' (reconcileRangeInMentionedUsers k p ms ! i)) = end' (range' (ms ! i)) + k) \<and>
      (start (range' (ms ! i)) < p \<longrightarrow> reconcileRangeInMentionedUsers k p ms ! i = ms ! i))"
  by (simp add: reconcileRangeInMentionedUsers_def)

theorem reconcile_shifts_from_edit_witness:
  "(4::int) \<le> start (range' ([mention alice 0 3, mention bob 5 8] ! 1)) \<and>
   start (range' (reconcileRangeInMentionedUsers 2 4 [mention alice 0 3, mention bob 5 8] ! 1)) = 7 \<and>
   end' (range' (reconcileRangeInMentionedUsers 2 4 [mention alice 0 3, mention bob 5 8] ! 1)) = 10 \<and>
   start (range' ([mention alice 0 3, mention bob 5 8] ! 0)) < 4 \<and>
   reconcileRangeInMentionedUsers 2 4 [mention alice 0 3, mention bob 5 8] ! 0 = mention alice 0 3"
proof -
  let ?ms = "[mention alice 0 3, mention bob 5 8]"
  note h = reconcile_shifts_from_edit [of 2 4 ?ms, THEN conjunct2, rule_format]
  have a: "(4::int) \<le> start (range' (?ms ! 1))" by (simp add: mention_def)
  have b: "start (range' (?ms ! 0)) < 4" by (simp add: mention_def)
  from h [of 1] a have "start (range' (reconcileRangeInMentionedUsers 2 4 ?ms ! 1)) = start (range' (?ms ! 1)) + 2
     \<and> end' (range' (reconcileRangeInMentionedUsers 2 4 ?ms ! 1)) = end' (range' (?ms ! 1)) + 2" by simp
  moreover from h [of 0] b have "reconcileRangeInMentionedUsers 2 4 ?ms ! 0 = ?ms ! 0" by simp
  ultimately show ?thesis using a b by (simp add: mention_def)
qed

text \<open>
  C9: \<open>reconcileRangeInMentionedUsers\<close> returns a list of the same length and order in
  which every mention keeps its user and the length of its range (end minus start).
\<close>

theorem reconcile_keeps_users_and_lengths:
  "length (reconcileRangeInMentionedUsers k p ms) = length ms \<and>
   map user (reconcileRangeInMentionedUsers k p ms) = map user ms \<and>
   map (\<lambda>it. end' (range' it) - start (range' it)) (reconcileRangeInMentionedUsers k p ms) =
     map (\<lambda>it. end' (range' it) - start (range' it)) ms"
  by (simp add: reconcileRangeInMentionedUsers_def)

section \<open>The removal loop\<close>

lemma removeLoop_filtered:
  "filtered (removeLoop sel ms acc) =
     filtered acc @ filter (\<lambda>it. \<not> intersection sel (range' it) (Some LessMore)) ms"
  by (induction ms arbitrary: acc) (simp_all add: Let_def)

lemma removeLoop_removedOffset:
  "removedOffset (removeLoop sel ms acc) =
     removedOffset acc
       - sum_list (map (\<lambda>it. end' (range' it) - start (range' it))
           (filter (\<lambda>it. intersection sel (range' it) (Some LessMore)) ms))"
  by (induction ms arbitrary: acc) (simp_all add: Let_def)

lemma removeLoop_lastSelection:
  "lastSelection (removeLoop sel ms acc) =
     fold max (map (\<lambda>it. end' (range' it))
       (filter (\<lambda>it. intersection sel (range' it) (Some LessMore)) ms)) (lastSelection acc)"
  by (induction ms arbitrary: acc) (simp_all add: Let_def max.commute)

lemma lessMore_iff:
  "intersection sel r (Some LessMore) =
     ((start sel \<le> start r \<and> start r \<le> end' sel) \<or> (start sel \<le> end' r \<and> end' r \<le> end' sel))"
  by (simp add: intersection_def inRangeLessMore_def)

section \<open>Removal of the mentions in a selection\<close>

text \<open>
  A mention over \<open>[0, 10]\<close> meets the selection \<open>[5, 6]\<close> (its start is at most 6 and its
  end at least 5), and \<open>removeMentionedUsersInSelection\<close> keeps it: neither of its ends
  lies in the selection.
\<close>

theorem remove_strictly_containing_counterexample:
  "start (range' (mention alice 0 10)) \<le> end' \<lparr>start = 5, end' = 6\<rparr> \<and>
   start \<lparr>start = 5, end' = 6\<rparr> \<le> end' (range' (mention alice 0 10)) \<and>
   filtered (removeMentionedUsersInSelection \<lparr>start = 5, end' = 6\<rparr> [mention alice 0 10])
     = [mention alice 0 10]"
  by (simp add: removeMentionedUsersInSelection_def mention_def lessMore_iff)

text \<open>
  C1 (as the code has it): \<open>removeMentionedUsersInSelection\<close> removes exactly the mentions
  whose start or whose end lies in the closed selection \<open>[a, b]\<close>, and keeps the others in
  their order. For a selection with \<open>a \<le> b\<close> and mentions with \<open>start \<le> end\<close>, these are
  the mentions with \<open>start \<le> b\<close> and \<open>end \<ge> a\<close> that do not strictly contain the selection;
  a mention that strictly contains the selection is kept.
\<close>

theorem remove_endpoint_in_selection:
  "filtered (removeMentionedUsersInSelection sel ms) =
     filter (\<lambda>it. \<not> ((start sel \<le> start (range' it) \<and> start (range' it) \<le> end' sel) \<or>
                      (start sel \<le> end' (range' it) \<and> end' (range' it) \<le> end' sel))) ms \<and>
   (start sel \<le> end' sel \<and> (\<forall>it \<in> set ms. start (range' it) \<le> end' (range' it)) \<longrightarrow>
      filtered (removeMentionedUsersInSelection sel ms) =
        filter (\<lambda>it. \<not> (start (range' it) \<le> end' sel \<and> start sel \<le> end' (range' it) \<and>
                         \<not> (start (range' it) < start sel \<and> end' sel < end' (range' it)))) ms)"
proof -
  have eq: "filtered (removeMentionedUsersInSelection sel ms) =
     filter (\<lambda>it. \<not> ((start sel \<le> start (range' it) \<and> start (range' it) \<le> end' sel) \<or>
                      (start sel \<le> end' (range' it) \<and> end' (range' it) \<le> end' sel))) ms"
    by (simp add: removeMentionedUsersInSelection_def removeLoop_filtered lessMore_iff)
  show ?thesis
  proof (intro conjI impI)
    show "filtered (removeMentionedUsersInSelection sel ms) =
     filter (\<lambda>it. \<not> ((start sel \<le> start (range' it) \<and> start (range' it) \<le> end' sel) \<or>
                      (start sel \<le> end' (range' it) \<and> end' (range' it) \<le> end' sel))) ms"
      by (rule eq)
  next
    assume wf: "start sel \<le> end' sel \<and> (\<forall>it \<in> set ms. start (range' it) \<le> end' (range' it))"
    show "filtered (removeMentionedUsersInSelection sel ms) =
        filter (\<lambda>it. \<not> (start (range' it) \<le> end' sel \<and> start sel \<le> end' (range' it) \<and>
                         \<not> (start (range' it) < start sel \<and> end' sel < end' (range' it)))) ms"
      unfolding eq
    proof (rule filter_cong [OF refl])
      fix it assume "it \<in> set ms"
      with wf have "start (range' it) \<le> end' (range' it)" and "start sel \<le> end' sel" by auto
      then show "(\<not> ((start sel \<le> start (range' it) \<and> start (range' it) \<le> end' sel) \<or>
                      (start sel \<le> end' (range' it) \<and> end' (range' it) \<le> end' sel))) =
            (\<not> (start (range' it) \<le> end' sel \<and> start sel \<le> end' (range' it) \<and>
                         \<not> (start (range' it) < start sel \<and> end' sel < end' (range' it))))"
        by linarith
    qed
  qed
qed

theorem remove_endpoint_in_selection_witness:
  "start \<lparr>start = 5, end' = 6\<rparr> \<le> end' \<lparr>start = 5, end' = 6\<rparr> \<and>
   list_all (\<lambda>it. start (range' it) \<le> end' (range' it))
     [mention alice 0 10, mention bob 6 9, mention alice 12 15] \<and>
   filtered (removeMentionedUsersInSelection \<lparr>start = 5, end' = 6\<rparr>
       [mention alice 0 10, mention bob 6 9, mention alice 12 15]) =
     [mention alice 0 10, mention alice 12 15]"
  using remove_endpoint_in_selection
          [of "\<lparr>start = 5, end' = 6\<rparr>" "[mention alice 0 10, mention bob 6 9, mention alice 12 15]"]
  by (simp add: mention_def)

lemma member_not_empty: "x \<in> A \<Longrightarrow> A \<noteq> {}"
  by blast

text \<open>
  With the selection \<open>[-3, -1]\<close> and one mention over \<open>[-5, -2]\<close>, the mention is removed:
  its end is \<open>-2\<close>, and \<open>lastSelection\<close> is \<open>0\<close>.
\<close>

theorem remove_offsets_negative_end_counterexample:
  "filtered (removeMentionedUsersInSelection \<lparr>start = - 3, end' = - 1\<rparr>
       [mention alice (- 5) (- 2)]) = [] \<and>
   end' (range' (mention alice (- 5) (- 2))) = - 2 \<and>
   lastSelection (removeMentionedUsersInSelection \<lparr>start = - 3, end' = - 1\<rparr>
       [mention alice (- 5) (- 2)]) = 0"
  by (simp add: removeMentionedUsersInSelection_def mention_def lessMore_iff)

text \<open>
  C10 (as the code has it): the mentions removed are exactly those left out of \<open>filtered\<close>,
  the ones with an end in the closed selection. \<open>removedOffset\<close> is the negated sum of their
  lengths (end minus start), and \<open>lastSelection\<close> is the greatest of 0 and their ends: the
  greatest end among them as soon as one of these ends is not negative. When no mention
  meets the selection the list comes back unchanged with \<open>lastSelection = 0\<close> and
  \<open>removedOffset = 0\<close>.
\<close>

theorem remove_offsets:
  "filtered (removeMentionedUsersInSelection sel ms) =
     filter (\<lambda>it. \<not> intersection sel (range' it) (Some LessMore)) ms \<and>
   removedOffset (removeMentionedUsersInSelection sel ms) =
     - sum_list (map (\<lambda>it. end' (range' it) - start (range' it))
         (filter (\<lambda>it. intersection sel (range' it) (Some LessMore)) ms)) \<and>
   lastSelection (removeMentionedUsersInSelection sel ms) =
     Max (insert 0 (set (map (\<lambda>it. end' (range' it))
         (filter (\<lambda>it. intersection sel (range' it) (Some LessMore)) ms)))) \<and>
   ((\<exists>it \<in> set (filter (\<lambda>it. intersection sel (range' it) (Some LessMore)) ms).
        0 \<le> end' (range' it)) \<longrightarrow>
      lastSelection (removeMentionedUsersInSelection sel ms) =
        Max (set (map (\<lambda>it. end' (range' it))
          (filter (\<lambda>it. intersection sel (range' it) (Some LessMore)) ms)))) \<and>
   (filter (\<lambda>it. intersection sel (range' it) (Some LessMore)) ms = [] \<longrightarrow>
      filtered (removeMentionedUsersInSelection sel ms) = ms \<and>
      lastSelection (removeMentionedUsersInSelection sel ms) = 0 \<and>
      removedOffset (removeMentionedUsersInSelection sel ms) = 0)"
proof -
  let ?removed = "filter (\<lambda>it. intersection sel (range' it) (Some LessMore)) ms"
  let ?ends = "map (\<lambda>it. end' (range' it)) ?removed"
  let ?r = "removeMentionedUsersInSelection sel ms"
  have kept: "filtered ?r = filter (\<lambda>it. \<not> intersection sel (range' it) (Some LessMore)) ms"
    by (simp add: removeMentionedUsersInSelection_def removeLoop_filtered)
  have off: "removedOffset ?r = - sum_list (map (\<lambda>it. end' (range' it) - start (range' it)) ?removed)"
    by (simp add: removeMentionedUsersInSelection_def removeLoop_removedOffset)
  have "lastSelection ?r = fold max ?ends 0"
    by (simp add: removeMentionedUsersInSelection_def removeLoop_lastSelection)
  also have "\<dots> = Max (set (0 # ?ends))" by (rule Max.set_eq_fold [symmetric])
  finally have last: "lastSelection ?r = Max (insert 0 (set ?ends))" by simp
  have nonneg: "lastSelection ?r = Max (set ?ends)"
    if pos: "\<exists>it \<in> set ?removed. 0 \<le> end' (range' it)"
  proof -
    from pos obtain it where it: "it \<in> set ?removed" and ge: "0 \<le> end' (range' it)" by blast
    from it have e: "end' (range' it) \<in> set ?ends" by (simp only: set_map) (rule imageI)
    then have ne: "set ?ends \<noteq> {}" by (rule member_not_empty)
    from e have "end' (range' it) \<le> Max (set ?ends)" by simp
    with ge have "0 \<le> Max (set ?ends)" by linarith
    moreover have "Max (insert 0 (set ?ends)) = max 0 (Max (set ?ends))"
      using ne by (simp add: Max_insert)
    ultimately show ?thesis using last by simp
  qed
  have none: "filtered ?r = ms \<and> lastSelection ?r = 0 \<and> removedOffset ?r = 0" if "?removed = []"
  proof -
    from that have "\<forall>it \<in> set ms. \<not> intersection sel (range' it) (Some LessMore)"
      by (simp add: filter_empty_conv)
    then have "filter (\<lambda>it. \<not> intersection sel (range' it) (Some LessMore)) ms = ms"
      by (simp add: filter_id_conv)
    with kept have "filtered ?r = ms" by simp
    with that off last show ?thesis by simp
  qed
  from kept off last nonneg none show ?thesis by blast
qed

theorem remove_offsets_witness:
  "filtered (removeMentionedUsersInSelection \<lparr>start = 4, end' = 9\<rparr>
      [mention alice 0 3, mention bob 5 8, mention alice 9 12]) = [mention alice 0 3] \<and>
   removedOffset (removeMentionedUsersInSelection \<lparr>start = 4, end' = 9\<rparr>
      [mention alice 0 3, mention bob 5 8, mention alice 9 12]) = - 6 \<and>
   list_ex (\<lambda>it. 0 \<le> end' (range' it))
     (filter (\<lambda>it. intersection \<lparr>start = 4, end' = 9\<rparr> (range' it) (Some LessMore))
        [mention alice 0 3, mention bob 5 8, mention alice 9 12]) \<and>
   lastSelection (removeMentionedUsersInSelection \<lparr>start = 4, end' = 9\<rparr>
      [mention alice 0 3, mention bob 5 8, mention alice 9 12]) = 12 \<and>
   filter (\<lambda>it. intersection \<lparr>start = 20, end' = 21\<rparr> (range' it) (Some LessMore))
      [mention alice 0 3, mention bob 5 8] = [] \<and>
   filtered (removeMentionedUsersInSelection \<lparr>start = 20, end' = 21\<rparr>
      [mention alice 0 3, mention bob 5 8]) = [mention alice 0 3, mention bob 5 8] \<and>
   lastSelection (removeMentionedUsersInSelection \<lparr>start = 20, end' = 21\<rparr>
      [mention alice 0 3, mention bob 5 8]) = 0 \<and>
   removedOffset (removeMentionedUsersInSelection \<lparr>start = 20, end' = 21\<rparr>
      [mention alice 0 3, mention bob 5 8]) = 0"
  using remove_offsets [of "\<lparr>start = 4, end' = 9\<rparr>" "[mention alice 0 3, mention bob 5 8, mention alice 9 12]"]
        remove_offsets [of "\<lparr>start = 20, end' = 21\<rparr>" "[mention alice 0 3, mention bob 5 8]"]
  by (simp add: mention_def lessMore_iff)

section \<open>The search string at the cursor\<close>






section \<open>Message templates\<close>

text \<open>
  C2: serializing a text with its mentions and parsing the template back should give the
  same mentions. \<open>templateToTextAndMentionedUsers\<close> returns the empty text and no mention
  for every template: from \<open>hi @Al\<close> with one mention of \<open>u1\<close> the template is
  \<open>hi\<close>, the trigger and \<open>{u1}\<close>, and parsing it gives no mention.
\<close>

theorem template_roundtrip_loses_mentions:
  "textToMentionedMessageTemplate mgr0 ''hi @Al'' [mention alice 3 6] = ''hi @'' @ ''{u1}'' \<and>
   mentionedUsers (templateToTextAndMentionedUsers mgr0
       (textToMentionedMessageTemplate mgr0 ''hi @Al'' [mention alice 3 6]) [alice]) = [] \<and>
   mentionedUsers (templateToTextAndMentionedUsers mgr0
       (textToMentionedMessageTemplate mgr0 ''hi @Al'' [mention alice 3 6]) [alice])
     \<noteq> [mention alice 3 6]"
  by code_simp

section \<open>The message store\<close>

lemma set_insert_by: "set (insert_by cmp x ys) = insert x (set ys)"
  by (induction ys) auto

lemma set_js_sort: "set (js_sort cmp xs) = set xs"
  by (induction xs) (simp_all add: js_sort_def set_insert_by)

text \<open>
  A confirmed message takes the place of the pending entry of its request, where it is,
  when no earlier entry is its own.
\<close>

lemma upsert_replaces_pending_entry:
  "sendingStatus e \<noteq> Succeeded \<Longrightarrow> reqId e = Some r \<Longrightarrow> reqId m = Some r \<Longrightarrow>
     upsert m (xs @ e # ys) = (if list_ex (\<lambda>x. sameEntry x m) xs then upsert m xs @ e # ys
                               else xs @ m # ys)"
  by (induction xs) (auto simp: sameEntry_def)

section \<open>Starting the collection\<close>

text \<open>
  \<open>init\<close> without a viewer id, on a state that holds collection 7: the collection is
  disposed, and the reference still holds it.
\<close>

theorem init_unauthenticated_counterexample:
  "\<not> truthy None \<and>
   Dispose 7 \<notin> set (sdkCalls (live (coll 7 True True) [msg 1 ''u2'' 10] [])) \<and>
   Dispose 7 \<in> set (sdkCalls (init sdk0 defaultComparator (coll 8 True False) None None
                        (live (coll 7 True True) [msg 1 ''u2'' 10] []))) \<and>
   collectionRef (init sdk0 defaultComparator (coll 8 True False) None None
                        (live (coll 7 True True) [msg 1 ''u2'' 10] []))
     = Some ((coll 7 True True)\<lparr>disposed := True\<rparr>)"
  by (simp add: truthy_def live_def coll_def init_def disposeCurrent_def)

text \<open>
  C3 (as the code has it): when \<open>init\<close> is called with an absent or empty viewer id, the
  message store (\<open>messages\<close> and \<open>nextMessages\<close>) is unchanged and no collection is created,
  and the collection held, if there is one, is disposed and stays in the reference. With a
  viewer id the same disposal comes first, then the new collection is created and held:
  the disposal is in both branches.
\<close>

theorem init_unauthenticated:
  "(\<not> truthy uid \<longrightarrow>
      store (init sdk cmp built creator uid st) = store st \<and>
      collectionRef (init sdk cmp built creator uid st) =
        map_option (\<lambda>c. c\<lparr>disposed := True\<rparr>) (collectionRef st) \<and>
      sdkCalls (init sdk cmp built creator uid st) =
        sdkCalls st @ (case collectionRef st of None \<Rightarrow> [] | Some c \<Rightarrow> [Dispose (collectionId c)])) \<and>
   (truthy uid \<longrightarrow>
      collectionRef (init sdk cmp built creator uid st) = Some (createMessageCollection built creator) \<and>
      take (length (sdkCalls st) + (case collectionRef st of None \<Rightarrow> 0 | Some c \<Rightarrow> 1) + 1)
          (sdkCalls (init sdk cmp built creator uid st)) =
        sdkCalls st @ (case collectionRef st of None \<Rightarrow> [] | Some c \<Rightarrow> [Dispose (collectionId c)])
          @ [CreateMessageCollection (collectionId (createMessageCollection built creator))])"
  by (cases "collectionRef st")
     (simp_all add: init_def disposeCurrent_def Let_def channelMarkAs_def updateNextMessages_def)

theorem init_unauthenticated_witness:
  "\<not> truthy None \<and>
   store (init sdk0 defaultComparator (coll 8 True False) None None
            (live (coll 7 True True) [msg 1 ''u2'' 10] [msg 2 ''u2'' 20]))
     = \<lparr>messages = [msg 1 ''u2'' 10], nextMessages = [msg 2 ''u2'' 20]\<rparr> \<and>
   sdkCalls (init sdk0 defaultComparator (coll 8 True False) None None
            (live (coll 7 True True) [msg 1 ''u2'' 10] [msg 2 ''u2'' 20]))
     = [CreateMessageCollection 7, Dispose 7] \<and>
   truthy (Some ''u1'') \<and>
   take 3 (sdkCalls (init sdk0 defaultComparator (coll 8 True False) None (Some ''u1'')
            (live (coll 7 True True) [msg 1 ''u2'' 10] [msg 2 ''u2'' 20])))
     = [CreateMessageCollection 7, Dispose 7, CreateMessageCollection 8]"
proof -
  let ?st = "live (coll 7 True True) [msg 1 ''u2'' 10] [msg 2 ''u2'' 20]"
  let ?init = "init sdk0 defaultComparator (coll 8 True False) None"
  have f: "\<not> truthy None" and t: "truthy (Some ''u1'')" by (simp_all add: truthy_def)
  have n: "length (sdkCalls ?st) + (case collectionRef ?st of None \<Rightarrow> 0 | Some c \<Rightarrow> 1) + 1 = 3"
    by (simp add: live_def)
  have c: "sdkCalls ?st @ (case collectionRef ?st of None \<Rightarrow> [] | Some c \<Rightarrow> [Dispose (collectionId c)])
             = [CreateMessageCollection 7, Dispose 7]"
    by (simp add: live_def coll_def)
  have c2: "sdkCalls ?st @ (case collectionRef ?st of None \<Rightarrow> [] | Some c \<Rightarrow> [Dispose (collectionId c)])
              @ [CreateMessageCollection 8]
             = [CreateMessageCollection 7, Dispose 7, CreateMessageCollection 8]"
    by (simp add: live_def coll_def)
  have b: "collectionId (createMessageCollection (coll 8 True False) None) = 8"
    by (simp add: createMessageCollection_def coll_def)
  from init_unauthenticated [of None sdk0 defaultComparator "coll 8 True False" None ?st] f
  have "store (?init None ?st) = store ?st"
    and "sdkCalls (?init None ?st) = [CreateMessageCollection 7, Dispose 7]"
    by (simp_all only: c simp_thms)
  moreover
  from init_unauthenticated [of "Some ''u1''" sdk0 defaultComparator "coll 8 True False" None ?st] t
  have "take 3 (sdkCalls (?init (Some ''u1'') ?st))
          = [CreateMessageCollection 7, Dispose 7, CreateMessageCollection 8]"
    by (simp only: n c2 b simp_thms)
  moreover have "store ?st = \<lparr>messages = [msg 1 ''u2'' 10], nextMessages = [msg 2 ''u2'' 20]\<rparr>"
    by (simp add: live_def)
  ultimately show ?thesis using f t by simp
qed

section \<open>Paging\<close>

text \<open>
  With a callback that holds the \<open>nextMessages\<close> of the store and nothing else running
  while it waits, \<open>next\<close> makes one \<open>updateMessages\<close> with the fetched page followed by all
  of \<open>nextMessages\<close>, and then replaces \<open>nextMessages\<close> with the empty list.
\<close>

lemma next_fresh_callback:
  "fetchedNext fetched st @ nextMessages (store st) \<noteq> [] \<Longrightarrow>
     next' cmp (nextMessages (store st)) fetched id st =
       Inr (st\<lparr>store := updateNextMessages cmp [] True
                            (updateMessages cmp (fetchedNext fetched st @ nextMessages (store st))
                               False (store st))\<rparr>)"
  by (auto simp: next'_def Let_def)

text \<open>
  C4: every call of \<open>next\<close> should merge all of \<open>nextMessages\<close> into \<open>messages\<close> and then
  clear it. The callback merges the array it holds and clears the store's. After message 4
  in \<open>nextMessages\<close> is updated (created at 40, then at 45), the array has the same length
  and the callback still holds the old one: \<open>next\<close> puts the old message into \<open>messages\<close>
  and empties \<open>nextMessages\<close>, so the updated message is in neither.
\<close>

theorem next_merges_stale_pending:
  "nextMessages (store (live (coll 7 False False) [msg 1 ''u2'' 10] [msg 4 ''u3'' 40]))
     = [msg 4 ''u3'' 40] \<and>
   nextMessages (store (onMessagesUpdated defaultComparator [msg 4 ''u3'' 45]
       (live (coll 7 False False) [msg 1 ''u2'' 10] [msg 4 ''u3'' 40])))
     = [msg 4 ''u3'' 45] \<and>
   next' defaultComparator [msg 4 ''u3'' 40] (Inr []) id
       (onMessagesUpdated defaultComparator [msg 4 ''u3'' 45]
          (live (coll 7 False False) [msg 1 ''u2'' 10] [msg 4 ''u3'' 40]))
     = Inr (live (coll 7 False False) [msg 1 ''u2'' 10, msg 4 ''u3'' 40] []) \<and>
   msg 4 ''u3'' 45 \<notin> set [msg 1 ''u2'' 10, msg 4 ''u3'' 40]"
  by (simp add: next'_def fetchedNext_def onMessagesUpdated_def live_def coll_def
        updateMessages_def updateNextMessages_def setMessages_def js_sort_def
        defaultComparator_def msg_def identity_def sameEntry_def Let_def)

text \<open>
  C7: \<open>prev\<close> never returns an error to its caller. It returns the state unchanged when
  there is no collection, when the collection reports no earlier page, and when the fetch
  fails; when the fetch succeeds on a collection with an earlier page, the page is merged
  into \<open>messages\<close>.
\<close>

theorem prev_swallows_errors:
  "(\<forall>e. prev cmp fetched st \<noteq> Inl e) \<and>
   (collectionRef st = None \<longrightarrow> prev cmp fetched st = Inr st) \<and>
   (\<forall>c. collectionRef st = Some c \<and> \<not> hasPrevious c \<longrightarrow> prev cmp fetched st = Inr st) \<and>
   (\<forall>e. prev cmp (Inl e) st = Inr st) \<and>
   (\<forall>c list. collectionRef st = Some c \<and> hasPrevious c \<longrightarrow>
      prev cmp (Inr list) st = Inr (st\<lparr>store := updateMessages cmp list False (store st)\<rparr>))"
  by (auto simp: prev_def split: option.splits sum.splits)

theorem prev_swallows_errors_witness:
  "prev defaultComparator (Inl (SdkError ''network''))
       (live (coll 7 True True) [msg 2 ''u2'' 20] []) =
     Inr (live (coll 7 True True) [msg 2 ''u2'' 20] []) \<and>
   collectionRef (live (coll 7 False True) [msg 2 ''u2'' 20] []) = Some (coll 7 False True) \<and>
   \<not> hasPrevious (coll 7 False True) \<and>
   prev defaultComparator (Inr [msg 1 ''u2'' 10])
       (live (coll 7 False True) [msg 2 ''u2'' 20] []) =
     Inr (live (coll 7 False True) [msg 2 ''u2'' 20] []) \<and>
   collectionRef (live (coll 7 True True) [msg 2 ''u2'' 20] []) = Some (coll 7 True True) \<and>
   hasPrevious (coll 7 True True) \<and>
   prev defaultComparator (Inr [msg 1 ''u2'' 10])
       (live (coll 7 True True) [msg 2 ''u2'' 20] []) =
     Inr (live (coll 7 True True) [msg 1 ''u2'' 10, msg 2 ''u2'' 20] [])"
proof -
  let ?a = "live (coll 7 True True) [msg 2 ''u2'' 20] []"
  let ?b = "live (coll 7 False True) [msg 2 ''u2'' 20] []"
  have ca: "collectionRef ?a = Some (coll 7 True True) \<and> hasPrevious (coll 7 True True)"
    by (simp add: live_def coll_def)
  have cb: "collectionRef ?b = Some (coll 7 False True) \<and> \<not> hasPrevious (coll 7 False True)"
    by (simp add: live_def coll_def)
  have s: "?a\<lparr>store := updateMessages defaultComparator [msg 1 ''u2'' 10] False (store ?a)\<rparr>
             = live (coll 7 True True) [msg 1 ''u2'' 10, msg 2 ''u2'' 20] []"
    by (simp add: live_def updateMessages_def setMessages_def js_sort_def defaultComparator_def
          msg_def identity_def sameEntry_def)
  from prev_swallows_errors [of defaultComparator "Inl (SdkError ''network'')" ?a]
  have 1: "prev defaultComparator (Inl (SdkError ''network'')) ?a = Inr ?a" by blast
  from prev_swallows_errors [of defaultComparator "Inr [msg 1 ''u2'' 10]" ?b] cb
  have 2: "prev defaultComparator (Inr [msg 1 ''u2'' 10]) ?b = Inr ?b" by blast
  from prev_swallows_errors [of defaultComparator "Inr [msg 1 ''u2'' 10]" ?a] ca
  have 3: "prev defaultComparator (Inr [msg 1 ''u2'' 10]) ?a =
     Inr (?a\<lparr>store := updateMessages defaultComparator [msg 1 ''u2'' 10] False (store ?a)\<rparr>)"
    by blast
  from 1 2 3 ca cb show ?thesis by (simp only: s simp_thms)
qed

end
